theory Spec2Isabelle
  imports Main "HOL-Library.AList"
begin

section \<open>The debug-redirect component: data model\<close>

text \<open>
  The component \<^verbatim>\<open>DebugRedirect\<close> reads the page's query parameters into a
  \<^verbatim>\<open>Record<string, string>\<close> and, whenever that record changes, runs the asynchronous
  routine \<^verbatim>\<open>processDebugInfo\<close>, which assembles a \<^verbatim>\<open>DebugInfo\<close> value and stores it in
  the component's state.

  A JavaScript object with string keys is an association list with distinct keys, in
  the object's own enumeration order; writing a property keeps the position of a key
  that is already there and appends a new key (\<open>AList.update\<close>). Strings are
  \<open>string\<close>; the one non-ASCII character of the source, U+00E3, is a single code unit
  there and a single \<open>char\<close> here.

  The values of a \<^verbatim>\<open>TracePayload\<close> are declared as
  \<^verbatim>\<open>string | number | boolean | null\<close>.
\<close>

datatype field_value = Str string | Num int | Bool bool | Null

type_synonym TracePayload = "(string \<times> field_value) list"

record ApiKeyInfo =
  id_str :: string
  isActive :: bool
  token :: string

record DebugInfo =
  trace_payload :: TracePayload
  final_url :: string
  timestamp :: string
  error :: "string option"
  api_key_valid :: "bool option"
  api_key_info :: "ApiKeyInfo option"

text \<open>
  The two state cells that \<^verbatim>\<open>processDebugInfo\<close> writes. The record of query
  parameters is the value the effect closes over, and is passed as an argument.
\<close>

record component_state =
  debugInfo :: "DebugInfo option"
  isLoading :: bool

section \<open>The platform\<close>

text \<open>
  What the routine obtains from the browser is a parameter of the model.

  A \<^verbatim>\<open>URL\<close> object is the part of the address that the routine never touches
  together with the list of name-value pairs behind \<^verbatim>\<open>url.searchParams\<close>.
  \<^verbatim>\<open>new URL(s)\<close> either throws a \<^verbatim>\<open>TypeError\<close> (\<open>Inl\<close> of its message) or returns
  such an object; \<^verbatim>\<open>url.toString()\<close> serialises it.

  \<^verbatim>\<open>fetch\<close> either rejects or resolves to a response with its \<^verbatim>\<open>ok\<close> flag;
  \<^verbatim>\<open>response.json()\<close> either throws or yields a value of the shape the source
  declares for \<^verbatim>\<open>api_key_info\<close>.

  \<open>clock n\<close> is the ISO string of the \<open>n\<close>-th \<^verbatim>\<open>new Date()\<close> of one pass.
\<close>

record URL =
  url_base :: string
  url_query :: "(string \<times> string) list"

datatype json_body = JsonThrows | JsonValue ApiKeyInfo

datatype fetch_outcome = FetchRejects | Response bool json_body

record env =
  PUBLIC_SERVER_URL :: "string option"
  fetch :: "string \<Rightarrow> (string \<times> string) list \<Rightarrow> fetch_outcome"
  randomUUID :: string
  clock :: "nat \<Rightarrow> string"
  new_URL :: "string \<Rightarrow> string + URL"
  url_toString :: "URL \<Rightarrow> string"
  userAgent :: string
  language :: string

text \<open>
  \<^verbatim>\<open>searchParams.set(name, value)\<close>: if there are pairs with that name, the first
  gets the value and the others are removed; otherwise the pair is appended.
\<close>

fun set_pair :: "string \<Rightarrow> string \<Rightarrow> (string \<times> string) list \<Rightarrow> (string \<times> string) list" where
  "set_pair k v [] = [(k, v)]"
| "set_pair k v (p # ps) =
     (if fst p = k then (k, v) # filter (\<lambda>q. fst q \<noteq> k) ps else p # set_pair k v ps)"

definition searchParams_set :: "string \<Rightarrow> string \<Rightarrow> URL \<Rightarrow> URL" where
  "searchParams_set k v url = url\<lparr>url_query := set_pair k v (url_query url)\<rparr>"

text \<open>A value that a \<^verbatim>\<open>catch\<close> clause can receive.\<close>

datatype thrown = ErrorObject string | OtherValue

section \<open>The routine\<close>

text \<open>JavaScript truthiness of a possibly undefined string, and \<^verbatim>\<open>a || d\<close>.\<close>

definition truthy :: "string option \<Rightarrow> bool" where
  "truthy a = (case a of None \<Rightarrow> False | Some s \<Rightarrow> s \<noteq> [])"

definition or_else :: "string option \<Rightarrow> string \<Rightarrow> string" where
  "or_else a d = (case a of None \<Rightarrow> d | Some s \<Rightarrow> if s \<noteq> [] then s else d)"

text \<open>
  The destructuring
  \<^verbatim>\<open>const { campaign_id, redirect_url, api_key, ...extraParams } = searchParams\<close>.
\<close>

definition campaign_id_of :: "(string \<times> string) list \<Rightarrow> string option" where
  "campaign_id_of searchParams = map_of searchParams ''campaign_id''"

definition redirect_url_of :: "(string \<times> string) list \<Rightarrow> string option" where
  "redirect_url_of searchParams = map_of searchParams ''redirect_url''"

definition api_key_of :: "(string \<times> string) list \<Rightarrow> string option" where
  "api_key_of searchParams = map_of searchParams ''api_key''"

definition extraParams_of :: "(string \<times> string) list \<Rightarrow> (string \<times> string) list" where
  "extraParams_of searchParams =
     filter (\<lambda>p. fst p \<noteq> ''campaign_id'' \<and> fst p \<noteq> ''redirect_url'' \<and> fst p \<noteq> ''api_key'')
       searchParams"

text \<open>
  The guard \<^verbatim>\<open>!campaign_id && !redirect_url && !api_key\<close> under which the routine
  returns at once.
\<close>

definition nothing_to_do :: "(string \<times> string) list \<Rightarrow> bool" where
  "nothing_to_do searchParams =
     (\<not> truthy (campaign_id_of searchParams) \<and> \<not> truthy (redirect_url_of searchParams)
      \<and> \<not> truthy (api_key_of searchParams))"

text \<open>
  The inner \<^verbatim>\<open>try\<close>: the request to the validation endpoint. It yields the pair
  \<^verbatim>\<open>(apiKeyInfo, apiKeyValid)\<close>; every failure is caught here.
\<close>

definition serverUrl :: "env \<Rightarrow> string" where
  "serverUrl e = or_else (PUBLIC_SERVER_URL e) ''http://localhost:8787''"

definition check_api_key :: "env \<Rightarrow> string \<Rightarrow> ApiKeyInfo option \<times> bool" where
  "check_api_key e api_key =
     (case fetch e (serverUrl e @ ''/v1/auth/api-key'') [(''x-api-key'', api_key)] of
        FetchRejects \<Rightarrow> (None, False)
      | Response ok body \<Rightarrow>
          if ok then
            (case body of
               JsonThrows \<Rightarrow> (None, False)
             | JsonValue data \<Rightarrow> (Some data, isActive data))
          else (None, False))"

definition validate :: "env \<Rightarrow> string option \<Rightarrow> ApiKeyInfo option \<times> bool" where
  "validate e api_key =
     (case api_key of
        None \<Rightarrow> (None, False)
      | Some k \<Rightarrow> if k \<noteq> [] then check_api_key e k else (None, False))"

text \<open>The three groups of \<^verbatim>\<open>searchParams.set\<close> calls on the parsed address.\<close>

definition set_extras :: "(string \<times> string) list \<Rightarrow> URL \<Rightarrow> URL" where
  "set_extras extraParams url =
     fold (\<lambda>p u. if snd p \<noteq> [] then searchParams_set (fst p) (snd p) u else u) extraParams url"

definition set_api_key :: "string option \<Rightarrow> URL \<Rightarrow> URL" where
  "set_api_key api_key url =
     (case api_key of
        None \<Rightarrow> url
      | Some k \<Rightarrow> if k \<noteq> [] then searchParams_set ''api_key'' k url else url)"

definition add_params :: "(string \<times> string) list \<Rightarrow> string \<Rightarrow> string option \<Rightarrow> URL \<Rightarrow> URL" where
  "add_params extraParams trace_id api_key url =
     set_api_key api_key (searchParams_set ''trace_id'' trace_id (set_extras extraParams url))"

definition make_final_url ::
  "env \<Rightarrow> string option \<Rightarrow> string option \<Rightarrow> (string \<times> string) list \<Rightarrow> string \<Rightarrow> thrown + string" where
  "make_final_url e redirect_url api_key extraParams trace_id =
     (let final_url = or_else redirect_url []
      in if final_url \<noteq> [] then
           (case new_URL e final_url of
              Inl msg \<Rightarrow> Inl (ErrorObject msg)
            | Inr url \<Rightarrow> Inr (url_toString e (add_params extraParams trace_id api_key url)))
         else Inr final_url)"

text \<open>
  An object literal defines its properties from left to right; a spread contributes the
  properties of its operand at its place.
\<close>

definition object_literal :: "(string \<times> field_value) list \<Rightarrow> TracePayload" where
  "object_literal props = fold (\<lambda>p obj. AList.update (fst p) (snd p) obj) props []"

definition required_fields ::
  "string \<Rightarrow> string \<Rightarrow> string option \<Rightarrow> ApiKeyInfo option \<Rightarrow> string option \<Rightarrow> string
     \<Rightarrow> (string \<times> field_value) list" where
  "required_fields trace_id created_at campaign_id apiKeyInfo redirect_url final_url_str =
     [(''id'', Str trace_id),
      (''created_at'', Str created_at),
      (''campaign_id'', Str (or_else campaign_id ''missing'')),
      (''api_key_id'', Str (or_else (map_option id_str apiKeyInfo) ''unknown'')),
      (''redirect_url'', Str (or_else redirect_url ''missing'')),
      (''final_url'', Str final_url_str)]"

definition network_block :: "env \<Rightarrow> (string \<times> field_value) list" where
  "network_block e =
     [(''country'', Str ''BR''),
      (''city'', Str (''S'' @ [CHR 0xE3] @ ''o Paulo'')),
      (''colo'', Str ''GRU''),
      (''timezone'', Str ''America/Sao_Paulo''),
      (''asn'', Str ''1234''),
      (''user-agent'', Str (userAgent e)),
      (''accept-language'', Str (language e))]"

definition make_trace_payload ::
  "env \<Rightarrow> string \<Rightarrow> string \<Rightarrow> string option \<Rightarrow> ApiKeyInfo option \<Rightarrow> string option \<Rightarrow> string
     \<Rightarrow> (string \<times> string) list \<Rightarrow> TracePayload" where
  "make_trace_payload e trace_id created_at campaign_id apiKeyInfo redirect_url final_url_str
       extraParams =
     object_literal
       (required_fields trace_id created_at campaign_id apiKeyInfo redirect_url final_url_str
        @ map (\<lambda>p. (fst p, Str (snd p))) extraParams
        @ network_block e)"

text \<open>The chain of \<^verbatim>\<open>if\<close>/\<^verbatim>\<open>else if\<close> that sets \<^verbatim>\<open>info.error\<close>.\<close>

definition choose_error :: "string option \<Rightarrow> string option \<Rightarrow> string option \<Rightarrow> bool \<Rightarrow> string option" where
  "choose_error redirect_url api_key campaign_id apiKeyValid =
     (if \<not> truthy redirect_url then Some ''Missing required parameter: redirect_url''
      else if \<not> truthy api_key then Some ''Missing required parameter: api_key''
      else if \<not> truthy campaign_id then Some ''Missing required parameter: campaign_id''
      else if \<not> apiKeyValid then Some ''API key is invalid or inactive''
      else None)"

text \<open>
  The body of the outer \<^verbatim>\<open>try\<close>, up to the value handed to \<^verbatim>\<open>setDebugInfo\<close>;
  \<open>Inl\<close> is a value thrown out of it.
\<close>

definition try_block :: "env \<Rightarrow> (string \<times> string) list \<Rightarrow> thrown + DebugInfo" where
  "try_block e searchParams =
     (let campaign_id = campaign_id_of searchParams;
          redirect_url = redirect_url_of searchParams;
          api_key = api_key_of searchParams;
          extraParams = extraParams_of searchParams;
          (apiKeyInfo, apiKeyValid) = validate e api_key;
          trace_id = randomUUID e;
          created_at = clock e 0
      in case make_final_url e redirect_url api_key extraParams trace_id of
           Inl err \<Rightarrow> Inl err
         | Inr final_url_str \<Rightarrow>
             Inr \<lparr>trace_payload =
                    make_trace_payload e trace_id created_at campaign_id apiKeyInfo redirect_url
                      final_url_str extraParams,
                  final_url = final_url_str,
                  timestamp = clock e 1,
                  error = choose_error redirect_url api_key campaign_id apiKeyValid,
                  api_key_valid = Some apiKeyValid,
                  api_key_info = apiKeyInfo\<rparr>)"

text \<open>The \<^verbatim>\<open>catch\<close> clause of the outer \<^verbatim>\<open>try\<close>.\<close>

definition errorMessage :: "thrown \<Rightarrow> string" where
  "errorMessage err = (case err of ErrorObject msg \<Rightarrow> msg | OtherValue \<Rightarrow> ''Unknown error'')"

definition catch_block :: "env \<Rightarrow> thrown \<Rightarrow> DebugInfo" where
  "catch_block e err =
     \<lparr>trace_payload =
        object_literal
          [(''id'', Str []), (''created_at'', Str []), (''campaign_id'', Str []),
           (''api_key_id'', Str []), (''redirect_url'', Str []), (''final_url'', Str [])],
      final_url = [],
      timestamp = clock e 1,
      error = Some (errorMessage err),
      api_key_valid = None,
      api_key_info = None\<rparr>"

definition processDebugInfo ::
  "env \<Rightarrow> (string \<times> string) list \<Rightarrow> component_state \<Rightarrow> component_state" where
  "processDebugInfo e searchParams st =
     (if nothing_to_do searchParams then st
      else
        let st1 = st\<lparr>isLoading := True\<rparr>;
            st2 = (case try_block e searchParams of
                     Inr info \<Rightarrow> st1\<lparr>debugInfo := Some info\<rparr>
                   | Inl err \<Rightarrow> st1\<lparr>debugInfo := Some (catch_block e err)\<rparr>)
        in st2\<lparr>isLoading := False\<rparr>)"

text \<open>
  The calls that one pass makes to the platform and to the state setters, in the order
  of the source. A failing \<^verbatim>\<open>new URL\<close> skips the rest of the \<^verbatim>\<open>try\<close> body, none of
  which is such a call before the final \<^verbatim>\<open>new Date()\<close>, and the \<^verbatim>\<open>catch\<close> clause
  then makes the same two calls.
\<close>

datatype call =
  SetIsLoading bool
| Fetch string "(string \<times> string) list"
| RandomUUID
| NewDate
| NewURL string
| SetDebugInfo

definition processDebugInfo_calls :: "env \<Rightarrow> (string \<times> string) list \<Rightarrow> call list" where
  "processDebugInfo_calls e searchParams =
     (if nothing_to_do searchParams then []
      else
        [SetIsLoading True]
        @ (case api_key_of searchParams of
             None \<Rightarrow> []
           | Some k \<Rightarrow>
               if k \<noteq> [] then [Fetch (serverUrl e @ ''/v1/auth/api-key'') [(''x-api-key'', k)]]
               else [])
        @ [RandomUUID, NewDate]
        @ (let final_url = or_else (redirect_url_of searchParams) []
           in if final_url \<noteq> [] then [NewURL final_url] else [])
        @ [NewDate, SetDebugInfo, SetIsLoading False])"

text \<open>
  Whether the pass gets past \<^verbatim>\<open>new URL\<close>: there is no address to parse, or the
  platform accepts it.
\<close>

definition redirect_url_accepted :: "env \<Rightarrow> (string \<times> string) list \<Rightarrow> bool" where
  "redirect_url_accepted e searchParams =
     (case redirect_url_of searchParams of
        None \<Rightarrow> True
      | Some r \<Rightarrow>
          if r \<noteq> [] then (case new_URL e r of Inl msg \<Rightarrow> False | Inr url \<Rightarrow> True) else True)"

section \<open>Comparing two passes\<close>

text \<open>
  To compare the values stored by two passes, the fields that are generated afresh are
  overwritten by fixed values: \<open>forget_stamps\<close> does so for the payload's \<^verbatim>\<open>id\<close> and
  \<^verbatim>\<open>created_at\<close> and for \<^verbatim>\<open>timestamp\<close>; \<open>forget_fresh\<close> also for the two copies of
  the final URL.
\<close>

definition blank_fields :: "string list \<Rightarrow> TracePayload \<Rightarrow> TracePayload" where
  "blank_fields keys payload = map (\<lambda>p. if fst p \<in> set keys then (fst p, Null) else p) payload"

definition forget_stamps :: "DebugInfo \<Rightarrow> DebugInfo" where
  "forget_stamps info =
     info\<lparr>trace_payload := blank_fields [''id'', ''created_at''] (trace_payload info),
          timestamp := []\<rparr>"

definition forget_fresh :: "DebugInfo \<Rightarrow> DebugInfo" where
  "forget_fresh info =
     info\<lparr>trace_payload := blank_fields [''id'', ''created_at'', ''final_url''] (trace_payload info),
          final_url := [],
          timestamp := []\<rparr>"

section \<open>A platform for the examples\<close>

text \<open>
  The examples run on a stand-in for the browser that knows one address,
  \<^verbatim>\<open>https://example.com/x\<close>, rejects every other string with the message
  \<^verbatim>\<open>Invalid URL\<close>, and serialises a query without escaping (none of the examples
  needs any). The validation endpoint answers as the example says.
\<close>

fun plain_query :: "(string \<times> string) list \<Rightarrow> string" where
  "plain_query [] = []"
| "plain_query [p] = fst p @ ''='' @ snd p"
| "plain_query (p # q # ps) = fst p @ ''='' @ snd p @ ''&'' @ plain_query (q # ps)"

definition example_toString :: "URL \<Rightarrow> string" where
  "example_toString u =
     (if url_query u = [] then url_base u else url_base u @ ''?'' @ plain_query (url_query u))"

definition example_new_URL :: "string \<Rightarrow> string + URL" where
  "example_new_URL s =
     (if s = ''https://example.com/x'' then Inr \<lparr>url_base = s, url_query = []\<rparr>
      else Inl ''Invalid URL'')"

definition example_env :: "fetch_outcome \<Rightarrow> string \<Rightarrow> env" where
  "example_env outcome uuid =
     \<lparr>PUBLIC_SERVER_URL = None,
      fetch = (\<lambda>url headers. outcome),
      randomUUID = uuid,
      clock = (\<lambda>n. if n = 0 then ''2025-01-01T00:00:00.000Z'' else ''2025-01-01T00:00:00.001Z''),
      new_URL = example_new_URL,
      url_toString = example_toString,
      userAgent = ''Mozilla/5.0'',
      language = ''en-US''\<rparr>"

definition idle_state :: component_state where
  "idle_state = \<lparr>debugInfo = None, isLoading = False\<rparr>"

section \<open>Evaluation and the shape of a pass\<close>

lemmas lookup_defs = campaign_id_of_def redirect_url_of_def api_key_of_def extraParams_of_def
lemmas example_defs = example_env_def example_new_URL_def example_toString_def idle_state_def
lemmas pass_defs = nothing_to_do_def try_block_def truthy_def or_else_def validate_def
  check_api_key_def serverUrl_def make_final_url_def add_params_def set_extras_def set_api_key_def
  searchParams_set_def make_trace_payload_def object_literal_def required_fields_def
  network_block_def choose_error_def catch_block_def errorMessage_def

lemma processDebugInfo_idle: "nothing_to_do sp \<Longrightarrow> processDebugInfo e sp st = st"
  by (simp add: processDebugInfo_def)

lemma processDebugInfo_done:
  "\<not> nothing_to_do sp \<Longrightarrow> try_block e sp = Inr info \<Longrightarrow>
     processDebugInfo e sp st = \<lparr>debugInfo = Some info, isLoading = False\<rparr>"
  by (simp add: processDebugInfo_def)

lemma processDebugInfo_caught:
  "\<not> nothing_to_do sp \<Longrightarrow> try_block e sp = Inl err \<Longrightarrow>
     processDebugInfo e sp st = \<lparr>debugInfo = Some (catch_block e err), isLoading = False\<rparr>"
  by (simp add: processDebugInfo_def)

lemma try_block_error:
  "try_block e sp = Inr info \<Longrightarrow>
     error info = choose_error (redirect_url_of sp) (api_key_of sp) (campaign_id_of sp)
                    (snd (validate e (api_key_of sp)))
     \<and> api_key_valid info = Some (snd (validate e (api_key_of sp)))
     \<and> api_key_info info = fst (validate e (api_key_of sp))"
  by (auto simp: try_block_def Let_def split: prod.splits sum.splits)

lemma try_block_Inl:
  "try_block e sp = Inl err \<Longrightarrow>
     \<exists>r msg. redirect_url_of sp = Some r \<and> r \<noteq> [] \<and> new_URL e r = Inl msg \<and> err = ErrorObject msg"
  by (auto simp: try_block_def make_final_url_def or_else_def Let_def
           split: prod.splits sum.splits option.splits if_splits)

lemma try_block_rejected:
  "redirect_url_of sp = Some r \<Longrightarrow> r \<noteq> [] \<Longrightarrow> new_URL e r = Inl msg \<Longrightarrow>
     try_block e sp = Inl (ErrorObject msg)"
  by (simp add: try_block_def make_final_url_def or_else_def Let_def split: prod.splits)

lemma try_block_accepted:
  "redirect_url_accepted e sp \<Longrightarrow> \<exists>info. try_block e sp = Inr info"
  by (cases "try_block e sp")
     (auto dest!: try_block_Inl simp: redirect_url_accepted_def)

lemma try_block_final_url_empty:
  "\<not> truthy (redirect_url_of sp) \<Longrightarrow> try_block e sp = Inr info \<Longrightarrow> final_url info = []"
  by (auto simp: try_block_def make_final_url_def or_else_def truthy_def Let_def
           split: prod.splits sum.splits option.splits if_splits)

lemma not_truthy_accepted: "\<not> truthy (redirect_url_of sp) \<Longrightarrow> redirect_url_accepted e sp"
  by (auto simp: redirect_url_accepted_def truthy_def split: option.splits)

lemma absent_key: "k \<notin> fst ` set sp \<Longrightarrow> \<not> truthy (map_of sp k)"
  by (simp add: truthy_def map_of_eq_None_iff [THEN iffD2])

section \<open>Objects and the payload\<close>

lemma map_of_fold_update:
  "map_of (fold (\<lambda>p obj. AList.update (fst p) (snd p) obj) props acc)
     = map_of acc ++ map_of (rev props)"
proof (induction props arbitrary: acc)
  case Nil
  show ?case by simp
next
  case (Cons p ps)
  show ?case
    by (rule ext) (simp add: Cons.IH update_conv' map_add_def split: option.splits)
qed

lemma map_of_object_literal: "map_of (object_literal props) = map_of (rev props)"
  by (simp add: object_literal_def map_of_fold_update)

lemma map_of_rev_distinct: "distinct (map fst xs) \<Longrightarrow> map_of (rev xs) = map_of xs"
proof (induction xs)
  case Nil
  show ?case by simp
next
  case (Cons x xs)
  then have "fst x \<notin> dom (map_of xs)"
    by (simp add: dom_map_of_conv_image_fst)
  then have "map_of [x] ++ map_of xs = (map_of xs)(fst x \<mapsto> snd x)"
    by (intro ext) (auto simp: map_add_def domIff split: option.splits)
  with Cons show ?case
    by (cases x) simp
qed

lemma set_fold_update:
  "set (fold (\<lambda>p obj. AList.update (fst p) (snd p) obj) props acc) \<subseteq> set props \<union> set acc"
proof (induction props arbitrary: acc)
  case Nil
  show ?case by simp
next
  case (Cons p ps)
  have "set (AList.update (fst p) (snd p) acc) \<subseteq> insert p (set acc)" for acc :: "('a \<times> 'b) list"
    by (induction acc) auto
  with Cons.IH [of "AList.update (fst p) (snd p) acc"] show ?case
    by auto
qed

lemma set_object_literal: "set (object_literal props) \<subseteq> set props"
  using set_fold_update [of props "[]"] by (simp add: object_literal_def)

lemma distinct_extraParams: "distinct (map fst sp) \<Longrightarrow> distinct (map fst (extraParams_of sp))"
  by (simp add: extraParams_of_def distinct_map_filter)

lemma map_of_map_snd:
  "map_of (map (\<lambda>p. (fst p, f (snd p))) xs) k = map_option f (map_of xs k)"
  by (induction xs) auto

lemma try_block_payload:
  "try_block e sp = Inr info \<Longrightarrow>
     trace_payload info =
       make_trace_payload e (randomUUID e) (clock e 0) (campaign_id_of sp) (api_key_info info)
         (redirect_url_of sp) (final_url info) (extraParams_of sp)"
  by (auto simp: try_block_def Let_def split: prod.splits sum.splits)

lemma map_of_payload:
  assumes "distinct (map fst ex)"
  shows "map_of (make_trace_payload e tid cr c ai r fu ex) =
           map_of (required_fields tid cr c ai r fu)
           ++ map_of (map (\<lambda>p. (fst p, Str (snd p))) ex)
           ++ map_of (network_block e)"
proof -
  have "distinct (map fst (map (\<lambda>p. (fst p, Str (snd p))) ex))"
    using assms by (simp add: comp_def)
  then have "map_of (rev (map (\<lambda>p. (fst p, Str (snd p))) ex)) = map_of (map (\<lambda>p. (fst p, Str (snd p))) ex)"
    by (rule map_of_rev_distinct)
  moreover have "map_of (rev (required_fields tid cr c ai r fu)) = map_of (required_fields tid cr c ai r fu)"
    by (rule map_of_rev_distinct) (simp add: required_fields_def)
  moreover have "map_of (rev (network_block e)) = map_of (network_block e)"
    by (rule map_of_rev_distinct) (simp add: network_block_def)
  ultimately show ?thesis
    by (simp add: make_trace_payload_def map_of_object_literal)
qed

lemma payload_network_block:
  assumes "p \<in> set (network_block e)"
  shows "map_of (make_trace_payload e tid cr c ai r fu ex) (fst p) = Some (snd p)"
proof -
  have "map_of (rev (network_block e)) = map_of (network_block e)"
    by (rule map_of_rev_distinct) (simp add: network_block_def)
  moreover have "map_of (network_block e) (fst p) = Some (snd p)"
    using assms by (intro map_of_is_SomeI) (simp_all add: network_block_def)
  ultimately show ?thesis
    by (simp add: make_trace_payload_def map_of_object_literal map_add_def)
qed

lemma payload_values:
  "p \<in> set (make_trace_payload e tid cr c ai r fu ex) \<Longrightarrow> \<exists>s. snd p = Str s"
  using set_object_literal
    [of "required_fields tid cr c ai r fu @ map (\<lambda>p. (fst p, Str (snd p))) ex @ network_block e"]
  by (auto simp: make_trace_payload_def required_fields_def network_block_def)

lemma payload_reserved:
  assumes "k = ''campaign_id'' \<or> k = ''redirect_url'' \<or> k = ''api_key''"
  shows "map_of (make_trace_payload e tid cr c ai r fu (extraParams_of sp)) k
           = map_of (required_fields tid cr c ai r fu) k"
proof -
  have "k \<notin> fst ` set (rev (map (\<lambda>p. (fst p, Str (snd p))) (extraParams_of sp)))"
    using assms by (auto simp: extraParams_of_def)
  then have "map_of (rev (map (\<lambda>p. (fst p, Str (snd p))) (extraParams_of sp))) k = None"
    by (simp add: map_of_eq_None_iff)
  moreover have "map_of (rev (network_block e)) k = None"
    using assms by (auto simp: network_block_def)
  moreover have "map_of (rev (required_fields tid cr c ai r fu)) k
                   = map_of (required_fields tid cr c ai r fu) k"
    using assms by (auto simp: required_fields_def)
  ultimately show ?thesis
    by (simp add: make_trace_payload_def map_of_object_literal map_add_def)
qed

section \<open>Removing a reserved key whose value is empty\<close>

lemma removed_key:
  fixes sp :: "(string \<times> string) list"
  shows "map_of (filter (\<lambda>p. fst p \<noteq> k) sp) k' = (if k' = k then None else map_of sp k')"
  by (induction sp) auto

lemma removed_reserved_extraParams:
  assumes "k = ''campaign_id'' \<or> k = ''redirect_url'' \<or> k = ''api_key''"
  shows "extraParams_of (filter (\<lambda>p. fst p \<noteq> k) sp) = extraParams_of sp"
  using assms unfolding extraParams_of_def by (induction sp) auto

lemma empty_like_absent:
  "truthy (Some []) = truthy None" "or_else (Some []) d = or_else None d"
  "validate e (Some []) = validate e None" "set_api_key (Some []) url = set_api_key None url"
  by (simp_all add: truthy_def or_else_def validate_def set_api_key_def)

lemma reading_removed:
  assumes "k = ''campaign_id'' \<or> k = ''redirect_url'' \<or> k = ''api_key''" and "map_of sp k = Some []"
  shows "truthy (campaign_id_of (filter (\<lambda>p. fst p \<noteq> k) sp)) = truthy (campaign_id_of sp)"
    and "truthy (redirect_url_of (filter (\<lambda>p. fst p \<noteq> k) sp)) = truthy (redirect_url_of sp)"
    and "truthy (api_key_of (filter (\<lambda>p. fst p \<noteq> k) sp)) = truthy (api_key_of sp)"
    and "or_else (campaign_id_of (filter (\<lambda>p. fst p \<noteq> k) sp)) d = or_else (campaign_id_of sp) d"
    and "or_else (redirect_url_of (filter (\<lambda>p. fst p \<noteq> k) sp)) d = or_else (redirect_url_of sp) d"
    and "validate e (api_key_of (filter (\<lambda>p. fst p \<noteq> k) sp)) = validate e (api_key_of sp)"
    and "set_api_key (api_key_of (filter (\<lambda>p. fst p \<noteq> k) sp)) url = set_api_key (api_key_of sp) url"
    and "case_option [] (\<lambda>a. if a \<noteq> [] then f a else []) (api_key_of (filter (\<lambda>p. fst p \<noteq> k) sp))
           = case_option [] (\<lambda>a. if a \<noteq> [] then f a else []) (api_key_of sp)"
  using assms
  by (auto simp: campaign_id_of_def redirect_url_of_def api_key_of_def removed_key empty_like_absent)

lemma try_block_removed:
  assumes "k = ''campaign_id'' \<or> k = ''redirect_url'' \<or> k = ''api_key''" and "map_of sp k = Some []"
  shows "try_block e (filter (\<lambda>p. fst p \<noteq> k) sp) = try_block e sp"
  by (simp add: try_block_def make_final_url_def choose_error_def required_fields_def
        make_trace_payload_def add_params_def Let_def
        reading_removed [OF assms] removed_reserved_extraParams [OF assms(1)]
      cong: sum.case_cong prod.case_cong if_cong)

lemma nothing_to_do_removed:
  assumes "k = ''campaign_id'' \<or> k = ''redirect_url'' \<or> k = ''api_key''" and "map_of sp k = Some []"
  shows "nothing_to_do (filter (\<lambda>p. fst p \<noteq> k) sp) = nothing_to_do sp"
  by (simp add: nothing_to_do_def reading_removed [OF assms])

lemma calls_removed:
  assumes "k = ''campaign_id'' \<or> k = ''redirect_url'' \<or> k = ''api_key''" and "map_of sp k = Some []"
  shows "processDebugInfo_calls e (filter (\<lambda>p. fst p \<noteq> k) sp) = processDebugInfo_calls e sp"
  by (simp add: processDebugInfo_calls_def Let_def nothing_to_do_removed [OF assms]
        reading_removed [OF assms] cong: if_cong)

section \<open>Setting query parameters\<close>

lemma set_pair_same: "filter (\<lambda>q. fst q = k) (set_pair k v ps) = [(k, v)]"
  by (induction ps) auto

lemma set_pair_other:
  "k' \<noteq> k \<Longrightarrow> filter (\<lambda>q. fst q = k') (set_pair k v ps) = filter (\<lambda>q. fst q = k') ps"
  by (induction ps) (auto intro: filter_cong)

lemma searchParams_set_same:
  "filter (\<lambda>q. fst q = k) (url_query (searchParams_set k v u)) = [(k, v)]"
  by (simp add: searchParams_set_def set_pair_same)

lemma searchParams_set_other:
  "k' \<noteq> k \<Longrightarrow> filter (\<lambda>q. fst q = k') (url_query (searchParams_set k v u))
                 = filter (\<lambda>q. fst q = k') (url_query u)"
  by (simp add: searchParams_set_def set_pair_other)

lemma set_extras_Cons:
  "set_extras (p # ex) u =
     set_extras ex (if snd p \<noteq> [] then searchParams_set (fst p) (snd p) u else u)"
  by (simp add: set_extras_def)

lemma set_extras_other:
  "\<forall>p \<in> set ex. fst p = k \<longrightarrow> snd p = [] \<Longrightarrow>
     filter (\<lambda>q. fst q = k) (url_query (set_extras ex u)) = filter (\<lambda>q. fst q = k) (url_query u)"
proof (induction ex arbitrary: u)
  case Nil
  show ?case by (simp add: set_extras_def)
next
  case (Cons p ex)
  then show ?case
    by (auto simp: set_extras_Cons searchParams_set_other)
qed

lemma set_extras_hit:
  "distinct (map fst ex) \<Longrightarrow> (k, v) \<in> set ex \<Longrightarrow> v \<noteq> [] \<Longrightarrow>
     filter (\<lambda>q. fst q = k) (url_query (set_extras ex u)) = [(k, v)]"
proof (induction ex arbitrary: u)
  case Nil
  then show ?case by simp
next
  case (Cons p ex)
  show ?case
  proof (cases "p = (k, v)")
    case True
    with Cons.prems have "\<forall>p \<in> set ex. fst p = k \<longrightarrow> snd p = []"
      by (auto simp: image_iff)
    then show ?thesis
      using True Cons.prems(3) by (simp add: set_extras_Cons set_extras_other searchParams_set_same)
  next
    case False
    with Cons.prems have "distinct (map fst ex)" "(k, v) \<in> set ex"
      by auto
    then show ?thesis
      using Cons.IH Cons.prems(3) by (simp add: set_extras_Cons)
  qed
qed

lemma set_api_key_other:
  "k \<noteq> ''api_key'' \<Longrightarrow>
     filter (\<lambda>q. fst q = k) (url_query (set_api_key a u)) = filter (\<lambda>q. fst q = k) (url_query u)"
  by (simp add: set_api_key_def searchParams_set_other split: option.splits)

lemma url_base_add_params: "url_base (add_params ex t a u) = url_base u"
proof -
  have "url_base (set_extras ex u) = url_base u"
    by (induction ex arbitrary: u) (simp_all add: set_extras_def searchParams_set_def)
  then show ?thesis
    by (simp add: add_params_def set_api_key_def searchParams_set_def split: option.splits)
qed

lemma try_block_parsed:
  "redirect_url_of sp = Some r \<Longrightarrow> r \<noteq> [] \<Longrightarrow> new_URL e r = Inr url \<Longrightarrow>
     \<exists>info. try_block e sp = Inr info
       \<and> final_url info =
           url_toString e (add_params (extraParams_of sp) (randomUUID e) (api_key_of sp) url)"
  by (simp add: try_block_def make_final_url_def or_else_def Let_def split: prod.splits)

section \<open>Two passes on the same parameters\<close>

lemma blank_fields_update:
  "blank_fields K (AList.update k v al)
     = AList.update k (if k \<in> set K then Null else v) (blank_fields K al)"
  by (induction al) (auto simp: blank_fields_def)

lemma blank_fields_fold:
  "blank_fields K (fold (\<lambda>p obj. AList.update (fst p) (snd p) obj) props acc)
     = fold (\<lambda>p obj. AList.update (fst p) (snd p) obj) (blank_fields K props) (blank_fields K acc)"
proof (induction props arbitrary: acc)
  case Nil
  show ?case by (simp add: blank_fields_def)
next
  case (Cons p ps)
  have "blank_fields K (p # ps) = (if fst p \<in> set K then (fst p, Null) else p) # blank_fields K ps"
    by (simp add: blank_fields_def)
  then show ?case
    by (simp add: Cons.IH blank_fields_update)
qed

lemma blank_fields_object_literal:
  "blank_fields K (object_literal props) = object_literal (blank_fields K props)"
  by (simp add: object_literal_def blank_fields_fold) (simp add: blank_fields_def)

lemma blank_fields_append: "blank_fields K (xs @ ys) = blank_fields K xs @ blank_fields K ys"
  by (simp add: blank_fields_def)

lemma blank_payload_fresh:
  assumes "userAgent e' = userAgent e" and "language e' = language e"
  shows "blank_fields [''id'', ''created_at'', ''final_url'']
           (make_trace_payload e' tid' cr' c ai r fu' ex)
         = blank_fields [''id'', ''created_at'', ''final_url'']
             (make_trace_payload e tid cr c ai r fu ex)"
proof -
  have "blank_fields [''id'', ''created_at'', ''final_url''] (required_fields tid' cr' c ai r fu')
          = blank_fields [''id'', ''created_at'', ''final_url''] (required_fields tid cr c ai r fu)"
    by (simp add: blank_fields_def required_fields_def)
  moreover have "network_block e' = network_block e"
    using assms by (simp add: network_block_def)
  ultimately show ?thesis
    by (simp add: make_trace_payload_def blank_fields_object_literal blank_fields_append)
qed

lemma blank_payload_stamps:
  assumes "userAgent e' = userAgent e" and "language e' = language e"
  shows "blank_fields [''id'', ''created_at''] (make_trace_payload e' tid' cr' c ai r fu ex)
         = blank_fields [''id'', ''created_at''] (make_trace_payload e tid cr c ai r fu ex)"
proof -
  have "blank_fields [''id'', ''created_at''] (required_fields tid' cr' c ai r fu)
          = blank_fields [''id'', ''created_at''] (required_fields tid cr c ai r fu)"
    by (simp add: blank_fields_def required_fields_def)
  moreover have "network_block e' = network_block e"
    using assms by (simp add: network_block_def)
  ultimately show ?thesis
    by (simp add: make_trace_payload_def blank_fields_object_literal blank_fields_append)
qed

lemma check_api_key_rerun:
  "check_api_key (e\<lparr>randomUUID := u', clock := c'\<rparr>) k = check_api_key e k"
  by (simp add: check_api_key_def serverUrl_def)

lemma validate_rerun: "validate (e\<lparr>randomUUID := u', clock := c'\<rparr>) a = validate e a"
  by (cases a) (simp_all add: validate_def check_api_key_rerun)

lemma try_block_unfold:
  "try_block e sp =
     (case make_final_url e (redirect_url_of sp) (api_key_of sp) (extraParams_of sp) (randomUUID e) of
        Inl err \<Rightarrow> Inl err
      | Inr fu \<Rightarrow>
          Inr \<lparr>trace_payload =
                 make_trace_payload e (randomUUID e) (clock e 0) (campaign_id_of sp)
                   (fst (validate e (api_key_of sp))) (redirect_url_of sp) fu (extraParams_of sp),
               final_url = fu,
               timestamp = clock e 1,
               error = choose_error (redirect_url_of sp) (api_key_of sp) (campaign_id_of sp)
                         (snd (validate e (api_key_of sp))),
               api_key_valid = Some (snd (validate e (api_key_of sp))),
               api_key_info = fst (validate e (api_key_of sp))\<rparr>)"
  by (simp add: try_block_def Let_def case_prod_beta)

lemma make_final_url_rerun:
  "(case make_final_url (e\<lparr>randomUUID := u', clock := c'\<rparr>) r a ex t' of
      Inl err \<Rightarrow> make_final_url e r a ex t = Inl err
    | Inr fu' \<Rightarrow> (\<exists>fu. make_final_url e r a ex t = Inr fu \<and> (\<not> truthy r \<longrightarrow> fu' = fu)))"
  by (simp add: make_final_url_def or_else_def truthy_def Let_def split: sum.splits option.splits)

lemma try_block_rerun:
  "(case try_block (e\<lparr>randomUUID := u', clock := c'\<rparr>) sp of
      Inl err \<Rightarrow> try_block e sp = Inl err
    | Inr info' \<Rightarrow>
        (\<exists>info. try_block e sp = Inr info \<and> forget_fresh info' = forget_fresh info
           \<and> (\<not> truthy (redirect_url_of sp) \<longrightarrow> forget_stamps info' = forget_stamps info)))"
proof -
  let ?e' = "e\<lparr>randomUUID := u', clock := c'\<rparr>"
  have ua: "userAgent ?e' = userAgent e" "language ?e' = language e"
    by simp_all
  show ?thesis
    using make_final_url_rerun [where e = e and u' = u' and c' = c' and r = "redirect_url_of sp"
            and a = "api_key_of sp" and ex = "extraParams_of sp" and t' = u' and t = "randomUUID e"]
    by (auto simp: try_block_unfold validate_rerun forget_fresh_def forget_stamps_def
          blank_payload_fresh [OF ua] blank_payload_stamps [OF ua] split: sum.splits)
qed

section \<open>No reserved parameter\<close>

text \<open>
  C7. When none of the keys \<^verbatim>\<open>campaign_id\<close>, \<^verbatim>\<open>redirect_url\<close>, \<^verbatim>\<open>api_key\<close> occurs in the
  record of parameters, the routine returns at once: the state is what it was, so no
  \<^verbatim>\<open>DebugInfo\<close> is produced, and it makes no call at all: no request, no identifier, no
  clock reading, no state setter.
\<close>

theorem no_reserved_key_no_work:
  assumes "''campaign_id'' \<notin> fst ` set sp"
      and "''redirect_url'' \<notin> fst ` set sp"
      and "''api_key'' \<notin> fst ` set sp"
  shows "processDebugInfo e sp st = st \<and> processDebugInfo_calls e sp = []"
proof -
  have "nothing_to_do sp"
    using assms by (simp add: nothing_to_do_def lookup_defs absent_key)
  then show ?thesis
    by (simp add: processDebugInfo_idle processDebugInfo_calls_def)
qed

theorem no_reserved_key_no_work_witness:
  "''campaign_id'' \<notin> fst ` set [(''utm_source'', ''newsletter'')]
   \<and> ''redirect_url'' \<notin> fst ` set [(''utm_source'', ''newsletter'')]
   \<and> ''api_key'' \<notin> fst ` set [(''utm_source'', ''newsletter'')]
   \<and> processDebugInfo (example_env FetchRejects ''u-1'') [(''utm_source'', ''newsletter'')] idle_state
       = idle_state
   \<and> processDebugInfo_calls (example_env FetchRejects ''u-1'') [(''utm_source'', ''newsletter'')] = []"
proof -
  let ?sp = "[(''utm_source'', ''newsletter'')]"
  have h: "''campaign_id'' \<notin> fst ` set ?sp" "''redirect_url'' \<notin> fst ` set ?sp"
    "''api_key'' \<notin> fst ` set ?sp"
    by simp_all
  show ?thesis
    using no_reserved_key_no_work [OF h, of "example_env FetchRejects ''u-1''" idle_state] h
    by simp
qed

section \<open>The error message\<close>

text \<open>
  C1. Whenever a pass completes its \<^verbatim>\<open>try\<close> body, the value it stores carries the
  error chosen by the first condition that holds, in this order: no \<^verbatim>\<open>redirect_url\<close>,
  no \<^verbatim>\<open>api_key\<close>, no \<^verbatim>\<open>campaign_id\<close>, a key that is not valid; and no error when
  none holds. A parameter is missing when it is undefined or the empty string.
\<close>

theorem error_precedence:
  assumes "\<not> nothing_to_do sp" and "try_block e sp = Inr info"
  shows "debugInfo (processDebugInfo e sp st) = Some info \<and>
         error info =
           (if \<not> truthy (redirect_url_of sp) then Some ''Missing required parameter: redirect_url''
            else if \<not> truthy (api_key_of sp) then Some ''Missing required parameter: api_key''
            else if \<not> truthy (campaign_id_of sp) then Some ''Missing required parameter: campaign_id''
            else if api_key_valid info = Some False then Some ''API key is invalid or inactive''
            else None)"
proof -
  have "debugInfo (processDebugInfo e sp st) = Some info"
    using assms by (simp add: processDebugInfo_done)
  moreover have "error info = choose_error (redirect_url_of sp) (api_key_of sp) (campaign_id_of sp)
                    (snd (validate e (api_key_of sp)))"
    and "api_key_valid info = Some (snd (validate e (api_key_of sp)))"
    using try_block_error [OF assms(2)] by simp_all
  ultimately show ?thesis
    by (simp add: choose_error_def)
qed

theorem error_precedence_witness:
  "\<not> nothing_to_do [(''campaign_id'', ''c1''), (''redirect_url'', ''https://example.com/x''),
                     (''api_key'', ''k1'')]
   \<and> (\<exists>info. try_block (example_env (Response False JsonThrows) ''u-1'')
          [(''campaign_id'', ''c1''), (''redirect_url'', ''https://example.com/x''),
           (''api_key'', ''k1'')] = Inr info
        \<and> debugInfo (processDebugInfo (example_env (Response False JsonThrows) ''u-1'')
          [(''campaign_id'', ''c1''), (''redirect_url'', ''https://example.com/x''),
           (''api_key'', ''k1'')] idle_state) = Some info
        \<and> error info = Some ''API key is invalid or inactive'')"
proof -
  let ?sp = "[(''campaign_id'', ''c1''), (''redirect_url'', ''https://example.com/x''),
              (''api_key'', ''k1'')]"
  let ?e = "example_env (Response False JsonThrows) ''u-1''"
  have h1: "\<not> nothing_to_do ?sp"
    by (simp add: nothing_to_do_def truthy_def lookup_defs)
  obtain info where h2: "try_block ?e ?sp = Inr info"
    by (simp add: pass_defs lookup_defs example_defs)
  have h3: "truthy (redirect_url_of ?sp)" "truthy (api_key_of ?sp)" "truthy (campaign_id_of ?sp)"
    by (simp_all add: truthy_def lookup_defs)
  have h4: "api_key_valid info = Some False"
    using try_block_error [OF h2] by (simp add: validate_def check_api_key_def lookup_defs example_defs)
  show ?thesis
    using error_precedence [OF h1 h2, of idle_state] h1 h2 h3 h4 by simp
qed

section \<open>No address to redirect to\<close>

text \<open>
  C8. When \<^verbatim>\<open>redirect_url\<close> is missing (undefined or empty) and \<^verbatim>\<open>campaign_id\<close> or
  \<^verbatim>\<open>api_key\<close> is given, the pass stores a \<^verbatim>\<open>DebugInfo\<close> whose final URL is the empty
  string and whose error is \<^verbatim>\<open>Missing required parameter: redirect_url\<close>, whatever the
  validation endpoint answers.
\<close>

theorem missing_redirect_url:
  assumes "\<not> truthy (redirect_url_of sp)"
      and "truthy (campaign_id_of sp) \<or> truthy (api_key_of sp)"
  shows "\<exists>info. processDebugInfo e sp st = \<lparr>debugInfo = Some info, isLoading = False\<rparr>
           \<and> final_url info = []
           \<and> error info = Some ''Missing required parameter: redirect_url''"
proof -
  have busy: "\<not> nothing_to_do sp"
    using assms(2) by (auto simp: nothing_to_do_def)
  obtain info where info: "try_block e sp = Inr info"
    using try_block_accepted [OF not_truthy_accepted [OF assms(1)]] by blast
  have "final_url info = []"
    using assms(1) info by (rule try_block_final_url_empty)
  moreover have "error info = Some ''Missing required parameter: redirect_url''"
    using try_block_error [OF info] assms(1) by (simp add: choose_error_def)
  ultimately show ?thesis
    using processDebugInfo_done [OF busy info] by simp
qed

theorem missing_redirect_url_witness:
  "\<not> truthy (redirect_url_of [(''campaign_id'', ''c1'')])
   \<and> truthy (campaign_id_of [(''campaign_id'', ''c1'')])
   \<and> (\<exists>info. processDebugInfo (example_env FetchRejects ''u-1'') [(''campaign_id'', ''c1'')] idle_state
               = \<lparr>debugInfo = Some info, isLoading = False\<rparr>
           \<and> final_url info = []
           \<and> error info = Some ''Missing required parameter: redirect_url'')"
proof -
  let ?sp = "[(''campaign_id'', ''c1'')]"
  have h1: "\<not> truthy (redirect_url_of ?sp)"
    by (simp add: truthy_def lookup_defs)
  have h2: "truthy (campaign_id_of ?sp)"
    by (simp add: truthy_def lookup_defs)
  from h2 have h3: "truthy (campaign_id_of ?sp) \<or> truthy (api_key_of ?sp)" ..
  show ?thesis
    using missing_redirect_url [OF h1 h3, of "example_env FetchRejects ''u-1''" idle_state] h1 h2
    by simp
qed

section \<open>A thrown error\<close>

text \<open>
  C5. A value thrown out of the \<^verbatim>\<open>try\<close> body is caught: it is an error object (the
  \<^verbatim>\<open>TypeError\<close> of \<^verbatim>\<open>new URL\<close> is the only one that can arise), and the pass ends
  with \<^verbatim>\<open>isLoading\<close> false and a \<^verbatim>\<open>DebugInfo\<close> whose six payload fields are empty
  strings, whose final URL is empty and whose error is the message of that object.
  The routine has no other outcome, so nothing leaves it.
\<close>

theorem thrown_error_degrades:
  assumes "try_block e sp = Inl err"
  shows "\<exists>msg. err = ErrorObject msg \<and>
           processDebugInfo e sp st =
             \<lparr>debugInfo = Some
                \<lparr>trace_payload =
                   [(''id'', Str []), (''created_at'', Str []), (''campaign_id'', Str []),
                    (''api_key_id'', Str []), (''redirect_url'', Str []), (''final_url'', Str [])],
                 final_url = [],
                 timestamp = clock e 1,
                 error = Some msg,
                 api_key_valid = None,
                 api_key_info = None\<rparr>,
              isLoading = False\<rparr>"
proof -
  obtain r msg where r: "redirect_url_of sp = Some r" "r \<noteq> []" and err: "err = ErrorObject msg"
    using try_block_Inl [OF assms] by blast
  have busy: "\<not> nothing_to_do sp"
    using r by (simp add: nothing_to_do_def truthy_def)
  have "catch_block e err =
          \<lparr>trace_payload =
             [(''id'', Str []), (''created_at'', Str []), (''campaign_id'', Str []),
              (''api_key_id'', Str []), (''redirect_url'', Str []), (''final_url'', Str [])],
           final_url = [], timestamp = clock e 1, error = Some msg,
           api_key_valid = None, api_key_info = None\<rparr>"
    by (simp add: catch_block_def object_literal_def errorMessage_def err)
  then show ?thesis
    using processDebugInfo_caught [OF busy assms] err by simp
qed

theorem thrown_error_degrades_witness:
  "try_block (example_env FetchRejects ''u-1'') [(''redirect_url'', ''not a url'')]
     = Inl (ErrorObject ''Invalid URL'')
   \<and> processDebugInfo (example_env FetchRejects ''u-1'') [(''redirect_url'', ''not a url'')] idle_state =
       \<lparr>debugInfo = Some
          \<lparr>trace_payload =
             [(''id'', Str []), (''created_at'', Str []), (''campaign_id'', Str []),
              (''api_key_id'', Str []), (''redirect_url'', Str []), (''final_url'', Str [])],
           final_url = [],
           timestamp = ''2025-01-01T00:00:00.001Z'',
           error = Some ''Invalid URL'',
           api_key_valid = None,
           api_key_info = None\<rparr>,
        isLoading = False\<rparr>"
proof -
  let ?sp = "[(''redirect_url'', ''not a url'')]"
  let ?e = "example_env FetchRejects ''u-1''"
  have h: "try_block ?e ?sp = Inl (ErrorObject ''Invalid URL'')"
    by (rule try_block_rejected [where r = "''not a url''"]) (simp_all add: lookup_defs example_defs)
  show ?thesis
    using thrown_error_degrades [OF h, of idle_state] h by (simp add: example_env_def)
qed

section \<open>A failing validation request\<close>

text \<open>
  C4, as amended. Let \<^verbatim>\<open>api_key\<close> be given, let the request to the validation endpoint
  reject or answer with a status that is not ok, and let \<^verbatim>\<open>redirect_url\<close> be missing or
  accepted by \<^verbatim>\<open>new URL\<close>. Then the pass completes with a regular \<^verbatim>\<open>DebugInfo\<close>:
  \<^verbatim>\<open>api_key_valid\<close> is false, \<^verbatim>\<open>api_key_info\<close> is absent, and when \<^verbatim>\<open>campaign_id\<close> and
  \<^verbatim>\<open>redirect_url\<close> are given too, the error is \<^verbatim>\<open>API key is invalid or inactive\<close>.
\<close>

theorem validation_failure_swallowed:
  assumes "api_key_of sp = Some k" and "k \<noteq> []"
      and "fetch e (serverUrl e @ ''/v1/auth/api-key'') [(''x-api-key'', k)] = FetchRejects
           \<or> fetch e (serverUrl e @ ''/v1/auth/api-key'') [(''x-api-key'', k)] = Response False body"
      and "redirect_url_accepted e sp"
  shows "\<exists>info. processDebugInfo e sp st = \<lparr>debugInfo = Some info, isLoading = False\<rparr>
           \<and> api_key_valid info = Some False
           \<and> api_key_info info = None
           \<and> (truthy (campaign_id_of sp) \<and> truthy (redirect_url_of sp) \<longrightarrow>
                error info = Some ''API key is invalid or inactive'')"
proof -
  have busy: "\<not> nothing_to_do sp"
    using assms(1,2) by (simp add: nothing_to_do_def truthy_def)
  obtain info where info: "try_block e sp = Inr info"
    using try_block_accepted [OF assms(4)] by blast
  have v: "validate e (api_key_of sp) = (None, False)"
    using assms(1-3) by (auto simp: validate_def check_api_key_def)
  have "api_key_valid info = Some False" "api_key_info info = None"
    using try_block_error [OF info] v by simp_all
  moreover have "error info = Some ''API key is invalid or inactive''"
    if "truthy (campaign_id_of sp)" "truthy (redirect_url_of sp)"
    using try_block_error [OF info] v that assms(1,2)
    by (simp add: choose_error_def truthy_def)
  ultimately show ?thesis
    using processDebugInfo_done [OF busy info] by simp
qed

theorem validation_failure_swallowed_witness:
  "api_key_of [(''campaign_id'', ''c1''), (''redirect_url'', ''https://example.com/x''),
               (''api_key'', ''k1'')] = Some ''k1''
   \<and> fetch (example_env (Response False JsonThrows) ''u-1'')
        (serverUrl (example_env (Response False JsonThrows) ''u-1'') @ ''/v1/auth/api-key'')
        [(''x-api-key'', ''k1'')] = Response False JsonThrows
   \<and> redirect_url_accepted (example_env (Response False JsonThrows) ''u-1'')
        [(''campaign_id'', ''c1''), (''redirect_url'', ''https://example.com/x''),
         (''api_key'', ''k1'')]
   \<and> (\<exists>info. processDebugInfo (example_env (Response False JsonThrows) ''u-1'')
                 [(''campaign_id'', ''c1''), (''redirect_url'', ''https://example.com/x''),
                  (''api_key'', ''k1'')] idle_state
               = \<lparr>debugInfo = Some info, isLoading = False\<rparr>
           \<and> api_key_valid info = Some False
           \<and> api_key_info info = None
           \<and> error info = Some ''API key is invalid or inactive'')"
proof -
  let ?sp = "[(''campaign_id'', ''c1''), (''redirect_url'', ''https://example.com/x''),
              (''api_key'', ''k1'')]"
  let ?e = "example_env (Response False JsonThrows) ''u-1''"
  have h1: "api_key_of ?sp = Some ''k1''" and h2: "''k1'' \<noteq> []"
    by (simp_all add: lookup_defs)
  have h3': "fetch ?e (serverUrl ?e @ ''/v1/auth/api-key'') [(''x-api-key'', ''k1'')]
              = Response False JsonThrows"
    by (simp add: example_env_def)
  then have h3: "fetch ?e (serverUrl ?e @ ''/v1/auth/api-key'') [(''x-api-key'', ''k1'')] = FetchRejects
           \<or> fetch ?e (serverUrl ?e @ ''/v1/auth/api-key'') [(''x-api-key'', ''k1'')]
               = Response False JsonThrows" ..
  have h4: "redirect_url_accepted ?e ?sp"
    by (simp add: redirect_url_accepted_def lookup_defs example_defs)
  have h5: "truthy (campaign_id_of ?sp) \<and> truthy (redirect_url_of ?sp)"
    by (simp add: truthy_def lookup_defs)
  show ?thesis
    using validation_failure_swallowed [OF h1 h2 h3 h4, of idle_state] h1 h3' h4 h5
    by auto
qed

text \<open>
  Without the condition on \<^verbatim>\<open>redirect_url\<close> the statement fails: with all three
  parameters given, a 401 from the endpoint and an address that \<^verbatim>\<open>new URL\<close> rejects, the
  stored value has no \<^verbatim>\<open>api_key_valid\<close> and carries the parser's message.
\<close>

theorem validation_failure_counterexample:
  "processDebugInfo (example_env (Response False JsonThrows) ''u-1'')
     [(''campaign_id'', ''c1''), (''redirect_url'', ''not a url''), (''api_key'', ''k1'')]
     idle_state =
       \<lparr>debugInfo = Some
          \<lparr>trace_payload =
             [(''id'', Str []), (''created_at'', Str []), (''campaign_id'', Str []),
              (''api_key_id'', Str []), (''redirect_url'', Str []), (''final_url'', Str [])],
           final_url = [],
           timestamp = ''2025-01-01T00:00:00.001Z'',
           error = Some ''Invalid URL'',
           api_key_valid = None,
           api_key_info = None\<rparr>,
        isLoading = False\<rparr>"
  by (simp add: processDebugInfo_def pass_defs lookup_defs example_defs)

section \<open>The order of the merge\<close>

text \<open>
  C3. The payload of a completed pass is the required fields, overridden by the extra
  parameters, overridden by the simulated network block: looked up by key it is the
  right-biased sum of the three in this order. So each of the seven keys of the block
  (\<^verbatim>\<open>country\<close>, \<^verbatim>\<open>city\<close>, \<^verbatim>\<open>colo\<close>, \<^verbatim>\<open>timezone\<close>, \<^verbatim>\<open>asn\<close>, \<^verbatim>\<open>user-agent\<close>,
  \<^verbatim>\<open>accept-language\<close>) carries the block's value, whatever the extra parameters are.
\<close>

theorem merge_order:
  assumes "\<not> nothing_to_do sp" and "try_block e sp = Inr info" and "distinct (map fst sp)"
  shows "debugInfo (processDebugInfo e sp st) = Some info
         \<and> map_of (trace_payload info) =
             map_of (required_fields (randomUUID e) (clock e 0) (campaign_id_of sp)
                       (api_key_info info) (redirect_url_of sp) (final_url info))
             ++ map_of (map (\<lambda>p. (fst p, Str (snd p))) (extraParams_of sp))
             ++ map_of (network_block e)
         \<and> (\<forall>p \<in> set (network_block e). map_of (trace_payload info) (fst p) = Some (snd p))"
proof (intro conjI ballI)
  show "debugInfo (processDebugInfo e sp st) = Some info"
    using assms by (simp add: processDebugInfo_done)
  show "map_of (trace_payload info) =
          map_of (required_fields (randomUUID e) (clock e 0) (campaign_id_of sp)
                    (api_key_info info) (redirect_url_of sp) (final_url info))
          ++ map_of (map (\<lambda>p. (fst p, Str (snd p))) (extraParams_of sp))
          ++ map_of (network_block e)"
    using assms by (simp add: try_block_payload map_of_payload distinct_extraParams)
  show "map_of (trace_payload info) (fst p) = Some (snd p)" if "p \<in> set (network_block e)" for p
    using that assms(2) by (simp add: try_block_payload payload_network_block)
qed

theorem merge_order_witness:
  "\<not> nothing_to_do [(''campaign_id'', ''c1''), (''country'', ''US''), (''id'', ''foo'')]
   \<and> distinct (map fst [(''campaign_id'', ''c1''), (''country'', ''US''), (''id'', ''foo'')])
   \<and> (\<exists>info. try_block (example_env FetchRejects ''u-1'')
                 [(''campaign_id'', ''c1''), (''country'', ''US''), (''id'', ''foo'')] = Inr info
         \<and> map_of (trace_payload info) ''country'' = Some (Str ''BR'')
         \<and> map_of (trace_payload info) ''id'' = Some (Str ''foo''))"
proof -
  let ?sp = "[(''campaign_id'', ''c1''), (''country'', ''US''), (''id'', ''foo'')]"
  let ?e = "example_env FetchRejects ''u-1''"
  have h1: "\<not> nothing_to_do ?sp"
    by (simp add: nothing_to_do_def truthy_def lookup_defs)
  have h3: "distinct (map fst ?sp)"
    by simp
  obtain info where h2: "try_block ?e ?sp = Inr info"
    using try_block_accepted [of ?e ?sp] by (auto simp: redirect_url_accepted_def lookup_defs)
  have "map_of (trace_payload info) ''country'' = Some (Str ''BR'')"
    and "map_of (trace_payload info) ''id'' = Some (Str ''foo'')"
    using merge_order [OF h1 h2 h3, of idle_state]
    by (simp_all add: network_block_def required_fields_def lookup_defs map_add_def)
  with h1 h2 h3 show ?thesis
    by blast
qed

section \<open>The identifier and the values of the payload\<close>

text \<open>
  C9, as amended. In the payload of a completed pass, \<^verbatim>\<open>id\<close> is the identifier generated
  in that pass when no parameter is named \<^verbatim>\<open>id\<close>, and the value of that parameter
  otherwise; and every value of the payload is a string.
\<close>

theorem payload_id_and_values:
  assumes "\<not> nothing_to_do sp" and "try_block e sp = Inr info" and "distinct (map fst sp)"
  shows "debugInfo (processDebugInfo e sp st) = Some info
         \<and> map_of (trace_payload info) ''id''
             = Some (Str (case map_of sp ''id'' of None \<Rightarrow> randomUUID e | Some v \<Rightarrow> v))
         \<and> (\<forall>p \<in> set (trace_payload info). \<exists>s. snd p = Str s)"
proof -
  have "map_of (extraParams_of sp) ''id'' = map_of sp ''id''"
    unfolding extraParams_of_def
    by (simp add: map_of_filter [where P = "\<lambda>k. k \<noteq> ''campaign_id'' \<and> k \<noteq> ''redirect_url'' \<and> k \<noteq> ''api_key''"]
          restrict_map_def)
  then have "map_of (map (\<lambda>p. (fst p, Str (snd p))) (extraParams_of sp)) ''id''
               = map_option Str (map_of sp ''id'')"
    by (simp add: map_of_map_snd)
  then have "map_of (trace_payload info) ''id''
               = Some (Str (case map_of sp ''id'' of None \<Rightarrow> randomUUID e | Some v \<Rightarrow> v))"
    using assms
    by (simp add: try_block_payload map_of_payload distinct_extraParams map_add_def
          network_block_def required_fields_def split: option.splits)
  moreover have "\<forall>p \<in> set (trace_payload info). \<exists>s. snd p = Str s"
    using assms(2) payload_values by (simp add: try_block_payload)
  ultimately show ?thesis
    using assms by (simp add: processDebugInfo_done)
qed

theorem payload_id_and_values_witness:
  "\<not> nothing_to_do [(''campaign_id'', ''c1''), (''utm_source'', ''newsletter'')]
   \<and> distinct (map fst [(''campaign_id'', ''c1''), (''utm_source'', ''newsletter'')])
   \<and> (\<exists>info. try_block (example_env FetchRejects ''u-1'')
                 [(''campaign_id'', ''c1''), (''utm_source'', ''newsletter'')] = Inr info
         \<and> debugInfo (processDebugInfo (example_env FetchRejects ''u-1'')
                 [(''campaign_id'', ''c1''), (''utm_source'', ''newsletter'')] idle_state) = Some info
         \<and> map_of (trace_payload info) ''id'' = Some (Str ''u-1'')
         \<and> (\<forall>p \<in> set (trace_payload info). \<exists>s. snd p = Str s))"
proof -
  let ?sp = "[(''campaign_id'', ''c1''), (''utm_source'', ''newsletter'')]"
  let ?e = "example_env FetchRejects ''u-1''"
  have h1: "\<not> nothing_to_do ?sp"
    by (simp add: nothing_to_do_def truthy_def lookup_defs)
  have h3: "distinct (map fst ?sp)"
    by simp
  obtain info where h2: "try_block ?e ?sp = Inr info"
    using try_block_accepted [of ?e ?sp] by (auto simp: redirect_url_accepted_def lookup_defs)
  have h4: "(case map_of ?sp ''id'' of None \<Rightarrow> randomUUID ?e | Some v \<Rightarrow> v) = ''u-1''"
    by (simp add: example_env_def)
  show ?thesis
    using payload_id_and_values [OF h1 h2 h3, of idle_state] h1 h2 h3 h4 by auto
qed

text \<open>
  An extra parameter named \<^verbatim>\<open>id\<close> is merged after the required fields and replaces
  the identifier.
\<close>

theorem payload_id_counterexample:
  "map_of (trace_payload (the (debugInfo (processDebugInfo (example_env FetchRejects ''u-1'')
      [(''campaign_id'', ''c1''), (''id'', ''foo'')] idle_state)))) ''id'' = Some (Str ''foo'')
   \<and> randomUUID (example_env FetchRejects ''u-1'') = ''u-1''"
  by (simp add: processDebugInfo_def pass_defs lookup_defs example_defs)

section \<open>A reserved parameter with an empty value\<close>

text \<open>
  C10. A reserved parameter whose value is the empty string is treated as absent: the
  pass ends in the same state and makes the same calls as on the record without that
  key. In particular, when no other reserved parameter has a value, nothing is done
  and no \<^verbatim>\<open>DebugInfo\<close> is produced; an empty \<^verbatim>\<open>redirect_url\<close> gives the message for
  \<^verbatim>\<open>redirect_url\<close>, an empty \<^verbatim>\<open>api_key\<close> the message for \<^verbatim>\<open>api_key\<close> when
  \<^verbatim>\<open>redirect_url\<close> has a value, an empty \<^verbatim>\<open>campaign_id\<close> the message for
  \<^verbatim>\<open>campaign_id\<close> when the other two have values; and the payload holds \<^verbatim>\<open>missing\<close>
  for an empty \<^verbatim>\<open>campaign_id\<close> or \<^verbatim>\<open>redirect_url\<close>.
\<close>

theorem empty_reserved_is_absent:
  assumes "k = ''campaign_id'' \<or> k = ''redirect_url'' \<or> k = ''api_key''"
      and "map_of sp k = Some []"
  shows "processDebugInfo e sp st = processDebugInfo e (filter (\<lambda>p. fst p \<noteq> k) sp) st
         \<and> processDebugInfo_calls e sp = processDebugInfo_calls e (filter (\<lambda>p. fst p \<noteq> k) sp)
         \<and> (nothing_to_do (filter (\<lambda>p. fst p \<noteq> k) sp) \<longrightarrow>
              processDebugInfo e sp st = st \<and> processDebugInfo_calls e sp = [])
         \<and> (\<forall>info. try_block e sp = Inr info \<longrightarrow>
              (k = ''redirect_url'' \<longrightarrow>
                 error info = Some ''Missing required parameter: redirect_url''
                 \<and> map_of (trace_payload info) ''redirect_url'' = Some (Str ''missing''))
              \<and> (k = ''api_key'' \<and> truthy (redirect_url_of sp) \<longrightarrow>
                 error info = Some ''Missing required parameter: api_key'')
              \<and> (k = ''campaign_id'' \<longrightarrow>
                 map_of (trace_payload info) ''campaign_id'' = Some (Str ''missing'')
                 \<and> (truthy (redirect_url_of sp) \<and> truthy (api_key_of sp) \<longrightarrow>
                      error info = Some ''Missing required parameter: campaign_id'')))"
proof (intro conjI allI impI)
  let ?sp' = "filter (\<lambda>p. fst p \<noteq> k) sp"
  show same: "processDebugInfo e sp st = processDebugInfo e ?sp' st"
    by (simp add: processDebugInfo_def try_block_removed [OF assms] nothing_to_do_removed [OF assms])
  show calls: "processDebugInfo_calls e sp = processDebugInfo_calls e ?sp'"
    by (simp add: calls_removed [OF assms])
  show "processDebugInfo e sp st = st" if "nothing_to_do ?sp'"
    using that by (simp add: processDebugInfo_idle nothing_to_do_removed [OF assms])
  show "processDebugInfo_calls e sp = []" if "nothing_to_do ?sp'"
    using that by (simp add: processDebugInfo_calls_def nothing_to_do_removed [OF assms])
next
  fix info
  assume info: "try_block e sp = Inr info"
  note err = try_block_error [OF info, THEN conjunct1]
  note pl = try_block_payload [OF info]
  show "error info = Some ''Missing required parameter: redirect_url''" if "k = ''redirect_url''"
    using that assms(2) err by (simp add: choose_error_def redirect_url_of_def truthy_def)
  show "map_of (trace_payload info) ''redirect_url'' = Some (Str ''missing'')" if "k = ''redirect_url''"
    using that assms(2)
    by (simp add: pl payload_reserved required_fields_def redirect_url_of_def or_else_def)
  show "error info = Some ''Missing required parameter: api_key''"
    if "k = ''api_key'' \<and> truthy (redirect_url_of sp)"
    using that assms(2) err by (simp add: choose_error_def api_key_of_def truthy_def)
  show "map_of (trace_payload info) ''campaign_id'' = Some (Str ''missing'')" if "k = ''campaign_id''"
    using that assms(2)
    by (simp add: pl payload_reserved required_fields_def campaign_id_of_def or_else_def)
  show "error info = Some ''Missing required parameter: campaign_id''"
    if "k = ''campaign_id''" "truthy (redirect_url_of sp) \<and> truthy (api_key_of sp)"
    using that assms(2) err by (simp add: choose_error_def campaign_id_of_def truthy_def)
qed

theorem empty_reserved_is_absent_witness:
  "map_of [(''campaign_id'', []), (''utm_source'', ''newsletter'')] ''campaign_id'' = Some []
   \<and> nothing_to_do (filter (\<lambda>p. fst p \<noteq> ''campaign_id'')
         [(''campaign_id'', []), (''utm_source'', ''newsletter'')])
   \<and> processDebugInfo (example_env FetchRejects ''u-1'')
         [(''campaign_id'', []), (''utm_source'', ''newsletter'')] idle_state = idle_state
   \<and> map_of [(''campaign_id'', []), (''redirect_url'', ''https://example.com/x''),
              (''api_key'', ''k1'')] ''campaign_id'' = Some []
   \<and> (\<exists>info. try_block (example_env FetchRejects ''u-1'')
                 [(''campaign_id'', []), (''redirect_url'', ''https://example.com/x''),
                  (''api_key'', ''k1'')] = Inr info
         \<and> map_of (trace_payload info) ''campaign_id'' = Some (Str ''missing'')
         \<and> error info = Some ''Missing required parameter: campaign_id'')
   \<and> map_of [(''campaign_id'', ''c1''), (''redirect_url'', [])] ''redirect_url'' = Some []
   \<and> (\<exists>info. try_block (example_env FetchRejects ''u-1'')
                 [(''campaign_id'', ''c1''), (''redirect_url'', [])] = Inr info
         \<and> map_of (trace_payload info) ''redirect_url'' = Some (Str ''missing'')
         \<and> error info = Some ''Missing required parameter: redirect_url'')
   \<and> map_of [(''redirect_url'', ''https://example.com/x''), (''api_key'', [])] ''api_key'' = Some []
   \<and> (\<exists>info. try_block (example_env FetchRejects ''u-1'')
                 [(''redirect_url'', ''https://example.com/x''), (''api_key'', [])] = Inr info
         \<and> error info = Some ''Missing required parameter: api_key'')"
proof -
  let ?e = "example_env FetchRejects ''u-1''"
  let ?sp1 = "[(''campaign_id'', []), (''utm_source'', ''newsletter'')]"
  let ?sp2 = "[(''campaign_id'', []), (''redirect_url'', ''https://example.com/x''),
               (''api_key'', ''k1'')]"
  let ?sp3 = "[(''campaign_id'', ''c1''), (''redirect_url'', [])]"
  let ?sp4 = "[(''redirect_url'', ''https://example.com/x''), (''api_key'', [])]"
  have c: "''campaign_id'' = ''campaign_id'' \<or> ''campaign_id'' = ''redirect_url''
           \<or> ''campaign_id'' = ''api_key''"
    and r: "''redirect_url'' = ''campaign_id'' \<or> ''redirect_url'' = ''redirect_url''
           \<or> ''redirect_url'' = ''api_key''"
    and a: "''api_key'' = ''campaign_id'' \<or> ''api_key'' = ''redirect_url''
           \<or> ''api_key'' = ''api_key''"
    by simp_all
  have m1: "map_of ?sp1 ''campaign_id'' = Some []" and m2: "map_of ?sp2 ''campaign_id'' = Some []"
    and m3: "map_of ?sp3 ''redirect_url'' = Some []" and m4: "map_of ?sp4 ''api_key'' = Some []"
    by simp_all
  have n1: "nothing_to_do (filter (\<lambda>p. fst p \<noteq> ''campaign_id'') ?sp1)"
    by (simp add: nothing_to_do_def truthy_def lookup_defs)
  have p1: "processDebugInfo ?e ?sp1 idle_state = idle_state"
    using empty_reserved_is_absent [OF c m1, of ?e idle_state] n1 by blast
  obtain i2 where i2: "try_block ?e ?sp2 = Inr i2"
    using try_block_accepted [of ?e ?sp2]
    by (auto simp: redirect_url_accepted_def lookup_defs example_defs)
  have t2: "truthy (redirect_url_of ?sp2) \<and> truthy (api_key_of ?sp2)"
    by (simp add: truthy_def lookup_defs)
  have p2: "map_of (trace_payload i2) ''campaign_id'' = Some (Str ''missing'')
            \<and> error i2 = Some ''Missing required parameter: campaign_id''"
    using empty_reserved_is_absent [OF c m2, of ?e idle_state] i2 t2 by blast
  obtain i3 where i3: "try_block ?e ?sp3 = Inr i3"
    using try_block_accepted [of ?e ?sp3]
    by (auto simp: redirect_url_accepted_def lookup_defs example_defs)
  have p3: "map_of (trace_payload i3) ''redirect_url'' = Some (Str ''missing'')
            \<and> error i3 = Some ''Missing required parameter: redirect_url''"
    using empty_reserved_is_absent [OF r m3, of ?e idle_state] i3 by blast
  obtain i4 where i4: "try_block ?e ?sp4 = Inr i4"
    using try_block_accepted [of ?e ?sp4]
    by (auto simp: redirect_url_accepted_def lookup_defs example_defs)
  have t4: "truthy (redirect_url_of ?sp4)"
    by (simp add: truthy_def lookup_defs)
  have p4: "error i4 = Some ''Missing required parameter: api_key''"
    using empty_reserved_is_absent [OF a m4, of ?e idle_state] i4 t4 by blast
  show ?thesis
    using m1 n1 p1 m2 i2 p2 m3 i3 p3 m4 i4 p4 by blast
qed

section \<open>The query of the final URL\<close>

text \<open>
  C2, as amended. Let \<^verbatim>\<open>redirect_url\<close> be an address that \<^verbatim>\<open>new URL\<close> accepts. The
  pass completes, and its final URL is the serialisation of the parsed address after
  the \<^verbatim>\<open>set\<close> calls, in which
  \<^item> every extra parameter with a non-empty value and a name other than \<^verbatim>\<open>trace_id\<close>
    is the only pair of its name;
  \<^item> an extra parameter with an empty value and a name other than \<^verbatim>\<open>trace_id\<close> adds
    nothing: the pairs of its name are those of the parsed address;
  \<^item> \<^verbatim>\<open>trace_id\<close> occurs once, with the identifier generated in this pass;
  \<^item> when \<^verbatim>\<open>api_key\<close> has a non-empty value, \<^verbatim>\<open>api_key\<close> occurs once, with that value;
  and the rest of the address is untouched.
\<close>

theorem final_url_query:
  assumes "redirect_url_of sp = Some r" and "r \<noteq> []" and "new_URL e r = Inr url"
      and "distinct (map fst sp)"
      and "u = add_params (extraParams_of sp) (randomUUID e) (api_key_of sp) url"
  shows "(\<exists>info. processDebugInfo e sp st = \<lparr>debugInfo = Some info, isLoading = False\<rparr>
            \<and> final_url info = url_toString e u)
         \<and> url_base u = url_base url
         \<and> (\<forall>p \<in> set (extraParams_of sp). snd p \<noteq> [] \<and> fst p \<noteq> ''trace_id'' \<longrightarrow>
              filter (\<lambda>q. fst q = fst p) (url_query u) = [p])
         \<and> (\<forall>p \<in> set (extraParams_of sp). snd p = [] \<and> fst p \<noteq> ''trace_id'' \<longrightarrow>
              filter (\<lambda>q. fst q = fst p) (url_query u)
                = filter (\<lambda>q. fst q = fst p) (url_query url))
         \<and> filter (\<lambda>q. fst q = ''trace_id'') (url_query u) = [(''trace_id'', randomUUID e)]
         \<and> (\<forall>a. api_key_of sp = Some a \<and> a \<noteq> [] \<longrightarrow>
              filter (\<lambda>q. fst q = ''api_key'') (url_query u) = [(''api_key'', a)])"
proof (intro conjI ballI allI impI)
  have busy: "\<not> nothing_to_do sp"
    using assms(1,2) by (simp add: nothing_to_do_def truthy_def)
  obtain info where info: "try_block e sp = Inr info" and fu: "final_url info = url_toString e u"
    using try_block_parsed [OF assms(1-3)] assms(5) by blast
  show "\<exists>info. processDebugInfo e sp st = \<lparr>debugInfo = Some info, isLoading = False\<rparr>
          \<and> final_url info = url_toString e u"
    using processDebugInfo_done [OF busy info] fu by blast
  show "url_base u = url_base url"
    by (simp add: assms(5) url_base_add_params)
  show "filter (\<lambda>q. fst q = ''trace_id'') (url_query u) = [(''trace_id'', randomUUID e)]"
    by (simp add: assms(5) add_params_def set_api_key_other searchParams_set_same)
  show "filter (\<lambda>q. fst q = ''api_key'') (url_query u) = [(''api_key'', a)]"
    if "api_key_of sp = Some a \<and> a \<noteq> []" for a
    using that by (simp add: assms(5) add_params_def set_api_key_def searchParams_set_same)
next
  fix p
  assume p: "p \<in> set (extraParams_of sp)"
  then have key: "fst p \<noteq> ''api_key''"
    by (simp add: extraParams_of_def)
  have dist: "distinct (map fst (extraParams_of sp))"
    using assms(4) by (rule distinct_extraParams)
  have through: "filter (\<lambda>q. fst q = fst p) (url_query u)
                   = filter (\<lambda>q. fst q = fst p) (url_query (set_extras (extraParams_of sp) url))"
    if "fst p \<noteq> ''trace_id''"
    using that key by (simp add: assms(5) add_params_def set_api_key_other searchParams_set_other)
  show "filter (\<lambda>q. fst q = fst p) (url_query u) = [p]" if "snd p \<noteq> [] \<and> fst p \<noteq> ''trace_id''"
    using that p set_extras_hit [OF dist, of "fst p" "snd p" url] by (simp add: through)
  show "filter (\<lambda>q. fst q = fst p) (url_query u) = filter (\<lambda>q. fst q = fst p) (url_query url)"
    if "snd p = [] \<and> fst p \<noteq> ''trace_id''"
  proof -
    have "\<forall>p' \<in> set (extraParams_of sp). fst p' = fst p \<longrightarrow> snd p' = []"
    proof (intro ballI impI)
      fix p'
      assume "p' \<in> set (extraParams_of sp)" "fst p' = fst p"
      with p dist have "p' = p"
        by (metis eq_key_imp_eq_value prod.collapse)
      with that show "snd p' = []"
        by simp
    qed
    then show ?thesis
      using that by (simp add: through set_extras_other)
  qed
qed

theorem final_url_query_witness:
  "redirect_url_of [(''campaign_id'', ''c1''), (''redirect_url'', ''https://example.com/x''),
                    (''api_key'', ''k1''), (''utm_source'', ''newsletter''), (''utm_term'', [])]
     = Some ''https://example.com/x''
   \<and> new_URL (example_env FetchRejects ''u-1'') ''https://example.com/x''
       = Inr \<lparr>url_base = ''https://example.com/x'', url_query = []\<rparr>
   \<and> distinct (map fst [(''campaign_id'', ''c1''), (''redirect_url'', ''https://example.com/x''),
                    (''api_key'', ''k1''), (''utm_source'', ''newsletter''), (''utm_term'', [])])
   \<and> (\<exists>info. processDebugInfo (example_env FetchRejects ''u-1'')
                 [(''campaign_id'', ''c1''), (''redirect_url'', ''https://example.com/x''),
                  (''api_key'', ''k1''), (''utm_source'', ''newsletter''), (''utm_term'', [])]
                 idle_state = \<lparr>debugInfo = Some info, isLoading = False\<rparr>
         \<and> final_url info
             = ''https://example.com/x?utm_source=newsletter&trace_id=u-1&api_key=k1'')"
proof -
  let ?sp = "[(''campaign_id'', ''c1''), (''redirect_url'', ''https://example.com/x''),
              (''api_key'', ''k1''), (''utm_source'', ''newsletter''), (''utm_term'', [])]"
  let ?e = "example_env FetchRejects ''u-1''"
  let ?url = "\<lparr>url_base = ''https://example.com/x'', url_query = []\<rparr>"
  let ?u = "add_params (extraParams_of ?sp) (randomUUID ?e) (api_key_of ?sp) ?url"
  have h1: "redirect_url_of ?sp = Some ''https://example.com/x''"
    and h2: "''https://example.com/x'' \<noteq> []"
    and h3: "new_URL ?e ''https://example.com/x'' = Inr ?url"
    and h4: "distinct (map fst ?sp)"
    by (simp_all add: lookup_defs example_defs)
  have h5: "?u = ?u" ..
  have s: "url_toString ?e ?u
             = ''https://example.com/x?utm_source=newsletter&trace_id=u-1&api_key=k1''"
    by (simp add: lookup_defs example_defs add_params_def set_extras_def set_api_key_def
          searchParams_set_def)
  show ?thesis
    using final_url_query [OF h1 h2 h3 h4 h5, of idle_state] h1 h3 h4 s by auto
qed

text \<open>
  An extra parameter named \<^verbatim>\<open>trace_id\<close> is set first and then overwritten by the
  generated identifier, so its value is not in the final URL.
\<close>

theorem final_url_query_counterexample:
  "extraParams_of [(''redirect_url'', ''https://example.com/x''), (''trace_id'', ''x'')]
     = [(''trace_id'', ''x'')]
   \<and> url_query (add_params [(''trace_id'', ''x'')] ''u-1'' None
         \<lparr>url_base = ''https://example.com/x'', url_query = []\<rparr>) = [(''trace_id'', ''u-1'')]
   \<and> final_url (the (debugInfo (processDebugInfo (example_env FetchRejects ''u-1'')
         [(''redirect_url'', ''https://example.com/x''), (''trace_id'', ''x'')] idle_state)))
       = ''https://example.com/x?trace_id=u-1''"
  by (simp add: processDebugInfo_def pass_defs lookup_defs example_defs
        Let_def)

section \<open>Running the synthesis again\<close>

text \<open>
  C6, as amended. A second pass on the same parameters, with the same answers of the
  platform but another identifier and other clock readings, ends with the same
  \<^verbatim>\<open>isLoading\<close> and with a \<^verbatim>\<open>DebugInfo\<close> that is equal to that of the first pass, key
  order of the payload included, except for \<^verbatim>\<open>timestamp\<close>, the payload's \<^verbatim>\<open>id\<close> and
  \<^verbatim>\<open>created_at\<close>, and the final URL in its two places (\<^verbatim>\<open>final_url\<close> of the
  \<^verbatim>\<open>DebugInfo\<close> and of the payload). When \<^verbatim>\<open>redirect_url\<close> is missing, the final URL
  is the same too.
\<close>

theorem rerun_same_shape:
  "map_option forget_fresh (debugInfo (processDebugInfo (e\<lparr>randomUUID := u', clock := c'\<rparr>) sp st))
     = map_option forget_fresh (debugInfo (processDebugInfo e sp st))
   \<and> isLoading (processDebugInfo (e\<lparr>randomUUID := u', clock := c'\<rparr>) sp st)
       = isLoading (processDebugInfo e sp st)
   \<and> (\<not> truthy (redirect_url_of sp) \<longrightarrow>
        map_option forget_stamps
          (debugInfo (processDebugInfo (e\<lparr>randomUUID := u', clock := c'\<rparr>) sp st))
        = map_option forget_stamps (debugInfo (processDebugInfo e sp st)))"
proof (cases "nothing_to_do sp")
  case True
  then show ?thesis
    by (simp add: processDebugInfo_idle)
next
  case False
  let ?e' = "e\<lparr>randomUUID := u', clock := c'\<rparr>"
  show ?thesis
  proof (cases "try_block ?e' sp")
    case (Inl err)
    then have "try_block e sp = Inl err"
      using try_block_rerun [where e = e and u' = u' and c' = c' and sp = sp] by simp
    moreover have "truthy (redirect_url_of sp)"
      using try_block_Inl [OF Inl] by (auto simp: truthy_def)
    ultimately show ?thesis
      using False Inl
      by (simp add: processDebugInfo_caught catch_block_def forget_fresh_def)
  next
    case (Inr info')
    then obtain info where "try_block e sp = Inr info" "forget_fresh info' = forget_fresh info"
      "\<not> truthy (redirect_url_of sp) \<longrightarrow> forget_stamps info' = forget_stamps info"
      using try_block_rerun [where e = e and u' = u' and c' = c' and sp = sp] by auto
    then show ?thesis
      using False Inr by (simp add: processDebugInfo_done)
  qed
qed

theorem rerun_same_shape_witness:
  "\<not> truthy (redirect_url_of [(''campaign_id'', ''c1''), (''utm_source'', ''newsletter'')])
   \<and> map_option forget_stamps (debugInfo (processDebugInfo
         ((example_env FetchRejects ''u-1'')\<lparr>randomUUID := ''u-2'',
             clock := (\<lambda>n. ''2025-01-02T00:00:00.000Z'')\<rparr>)
         [(''campaign_id'', ''c1''), (''utm_source'', ''newsletter'')] idle_state))
     = map_option forget_stamps (debugInfo (processDebugInfo (example_env FetchRejects ''u-1'')
         [(''campaign_id'', ''c1''), (''utm_source'', ''newsletter'')] idle_state))"
proof -
  let ?sp = "[(''campaign_id'', ''c1''), (''utm_source'', ''newsletter'')]"
  have h: "\<not> truthy (redirect_url_of ?sp)"
    by (simp add: truthy_def lookup_defs)
  show ?thesis
    using rerun_same_shape [where e = "example_env FetchRejects ''u-1''" and u' = "''u-2''"
            and c' = "\<lambda>n. ''2025-01-02T00:00:00.000Z''" and sp = ?sp and st = idle_state] h
    by blast
qed

text \<open>
  With a \<^verbatim>\<open>redirect_url\<close>, the final URL carries the identifier of the pass, so two
  passes with different identifiers differ in it.
\<close>

theorem rerun_same_shape_counterexample:
  "final_url (the (debugInfo (processDebugInfo (example_env FetchRejects ''u-1'')
      [(''redirect_url'', ''https://example.com/x'')] idle_state)))
     = ''https://example.com/x?trace_id=u-1''
   \<and> final_url (the (debugInfo (processDebugInfo (example_env FetchRejects ''u-2'')
      [(''redirect_url'', ''https://example.com/x'')] idle_state)))
     = ''https://example.com/x?trace_id=u-2''
   \<and> map_of (trace_payload (the (debugInfo (processDebugInfo (example_env FetchRejects ''u-1'')
      [(''redirect_url'', ''https://example.com/x'')] idle_state)))) ''final_url''
     = Some (Str ''https://example.com/x?trace_id=u-1'')
   \<and> map_of (trace_payload (the (debugInfo (processDebugInfo (example_env FetchRejects ''u-2'')
      [(''redirect_url'', ''https://example.com/x'')] idle_state)))) ''final_url''
     = Some (Str ''https://example.com/x?trace_id=u-2'')"
  by (simp add: processDebugInfo_def pass_defs lookup_defs example_defs Let_def)

end
